theory Spec2Isabelle
  imports Main
begin

section \<open>Values, exceptions and effects\<close>

text \<open>
  The program under verification is the class \<open>GoogleAnalyticsUtils\<close> of
  \<^verbatim>\<open>ga_universal.py\<close>. Its data are the JSON-shaped Python values that the
  Reporting API client returns and accepts: \<open>None\<close>, booleans, numbers, strings,
  lists and dictionaries. A dictionary is an association list with \<open>map_of\<close> as
  lookup; strings are byte strings (the only literal the code inspects, \<open>ga:\<close>,
  is ASCII). No operation of the code reads the value of a number, so integers stand
  for all numbers.
\<close>

datatype json =
    JNull
  | JBool bool
  | JNum int
  | JStr string
  | JList "json list"
  | JDict "(string \<times> json) list"

text \<open>The Python exceptions that the modelled code can raise or receive.\<close>

datatype error =
    AttributeError
  | IndexError
  | KeyError
  | TypeError
  | ValueError
  | OverflowError
  | OSError
  | HttpError

datatype level = DEBUG | INFO | ERROR

text \<open>
  Everything the code does to the outside world is recorded as a trace of events, in
  the order in which it happens: a call of the logger, the one network call of
  \<open>get_report\<close> with its request body, and the effect of one \<open>open\<close> of a
  file for writing: the file's name, the delimiter of the \<open>csv.writer\<close> and
  the rows that the writer accepted before the file was closed or an error occurred.
  The text that \<open>csv.writer\<close> makes of a row is the library's business; a file
  is identified with the delimiter and the rows handed to its writer.
\<close>

datatype event =
    Log level string
  | LogError string error
  | ApiCall json
  | FileWritten string string "json list list"

definition and_then :: "error + 'a \<Rightarrow> ('a \<Rightarrow> error + 'b) \<Rightarrow> error + 'b" where
  "and_then m f = (case m of Inl e \<Rightarrow> Inl e | Inr x \<Rightarrow> f x)"

text \<open>
  A list comprehension, or a \<open>for\<close> loop that appends one result per element: the
  first exception ends it.
\<close>

fun map_raising :: "('a \<Rightarrow> error + 'b) \<Rightarrow> 'a list \<Rightarrow> error + 'b list" where
  "map_raising f [] = Inr []"
| "map_raising f (x # xs) =
     and_then (f x) (\<lambda>y. and_then (map_raising f xs) (\<lambda>ys. Inr (y # ys)))"

subsection \<open>The Python operations used by the code\<close>

text \<open>\<open>obj.get(key, default)\<close>: only a dictionary has the method.\<close>

fun py_get :: "json \<Rightarrow> string \<Rightarrow> json \<Rightarrow> error + json" where
  "py_get (JDict kvs) key dflt = Inr (case map_of kvs key of Some v \<Rightarrow> v | None \<Rightarrow> dflt)"
| "py_get _ key dflt = Inl AttributeError"

text \<open>
  \<open>obj[0]\<close>: the first element of a list or the first character of a string,
  \<open>IndexError\<close> when empty; a dictionary of string keys has no key \<open>0\<close>;
  the other values are not subscriptable.
\<close>

fun py_item0 :: "json \<Rightarrow> error + json" where
  "py_item0 (JList []) = Inl IndexError"
| "py_item0 (JList (x # xs)) = Inr x"
| "py_item0 (JStr []) = Inl IndexError"
| "py_item0 (JStr (c # cs)) = Inr (JStr [c])"
| "py_item0 (JDict kvs) = Inl KeyError"
| "py_item0 _ = Inl TypeError"

text \<open>
  \<open>for x in obj\<close>: the elements of a list, the characters of a string, the keys
  of a dictionary; the other values are not iterable.
\<close>

fun py_iter :: "json \<Rightarrow> error + json list" where
  "py_iter (JList xs) = Inr xs"
| "py_iter (JStr s) = Inr (map (\<lambda>c. JStr [c]) s)"
| "py_iter (JDict kvs) = Inr (map (\<lambda>kv. JStr (fst kv)) kvs)"
| "py_iter _ = Inl TypeError"

text \<open>
  \<open>s.replace("ga:", "")\<close> on a string: one pass from the left, every
  non-overlapping occurrence of \<open>ga:\<close> is removed, and the scan goes on after the
  removed occurrence.
\<close>

fun replace_ga :: "string \<Rightarrow> string" where
  "replace_ga [] = []"
| "replace_ga (c # cs) =
     (if take 3 (c # cs) = ''ga:'' then replace_ga (drop 2 cs) else c # replace_ga cs)"

text \<open>Only a string has the method \<open>replace\<close>.\<close>

fun py_replace_ga :: "json \<Rightarrow> error + json" where
  "py_replace_ga (JStr s) = Inr (JStr (replace_ga s))"
| "py_replace_ga _ = Inl AttributeError"

text \<open>
  \<open>a + b + [v]\<close>, evaluated from the left. It is a list exactly when \<open>a\<close> and
  \<open>b\<close> are lists; for every other pair of JSON values one of the two additions
  raises \<open>TypeError\<close> (the sum of two strings or of two numbers is not a list, and
  cannot be added to the list \<open>[v]\<close>).
\<close>

fun py_concat3 :: "json \<Rightarrow> json \<Rightarrow> json list \<Rightarrow> error + json list" where
  "py_concat3 (JList a) (JList b) c = Inr (a @ b @ c)"
| "py_concat3 _ _ c = Inl TypeError"

section \<open>parse\_report\<close>

text \<open>Line 115: \<open>report = report.get("reports", [])[0]\<close>.\<close>

definition first_report :: "json \<Rightarrow> error + json" where
  "first_report report = and_then (py_get report ''reports'' (JList [])) py_item0"

text \<open>Lines 124 to 129: the two comprehensions over the headers.\<close>

definition strip_dimension :: "json \<Rightarrow> error + json" where
  "strip_dimension dimension = py_replace_ga dimension"

definition strip_metric :: "json \<Rightarrow> error + json" where
  "strip_metric metric = and_then (py_get metric ''name'' JNull) py_replace_ga"

text \<open>Lines 135 to 139: the row built in the loop.\<close>

definition parse_row :: "string \<Rightarrow> json \<Rightarrow> error + json list" where
  "parse_row view_id row =
     and_then (py_get row ''dimensions'' JNull) (\<lambda>dims.
     and_then (py_get row ''metrics'' (JList [])) (\<lambda>metrics.
     and_then (py_item0 metrics) (\<lambda>metric0.
     and_then (py_get metric0 ''values'' JNull) (\<lambda>vals.
     py_concat3 dims vals [JStr view_id]))))"

text \<open>Lines 118 to 142, on the first report.\<close>

definition parse_first :: "json \<Rightarrow> string \<Rightarrow> error + json list list" where
  "parse_first report view_id =
     and_then (py_get report ''columnHeader'' (JDict [])) (\<lambda>columnHeader.
     and_then (py_get columnHeader ''dimensions'' (JList [])) (\<lambda>dimensionHeaders.
     and_then (py_get columnHeader ''metricHeader'' (JDict [])) (\<lambda>metricHeader.
     and_then (py_get metricHeader ''metricHeaderEntries'' (JList [])) (\<lambda>metricHeaders.
     and_then (py_iter dimensionHeaders) (\<lambda>ds.
     and_then (map_raising strip_dimension ds) (\<lambda>dimensionHeaders'.
     and_then (py_iter metricHeaders) (\<lambda>ms.
     and_then (map_raising strip_metric ms) (\<lambda>metricHeaders'.
     let headers = dimensionHeaders' @ metricHeaders' @ [JStr ''view_id''] in
     and_then (py_get report ''data'' (JDict [])) (\<lambda>data.
     and_then (py_get data ''rows'' (JList [])) (\<lambda>rows.
     and_then (py_iter rows) (\<lambda>rs.
     and_then (map_raising (parse_row view_id) rs) (\<lambda>content.
     Inr (headers # content)))))))))))))"

text \<open>
  The whole method: the events it causes and its result. The logger is called
  after line 115, so nothing is logged when that line raises.
\<close>

definition parse_report :: "json \<Rightarrow> string \<Rightarrow> event list \<times> (error + json list list)" where
  "parse_report report view_id =
     (case first_report report of
        Inl e \<Rightarrow> ([], Inl e)
      | Inr r \<Rightarrow> ([Log INFO ''[GAUtils.get_report] parsing report''], parse_first r view_id))"


section \<open>Dates\<close>

text \<open>
  A \<open>datetime.date\<close> is represented by its proleptic Gregorian ordinal, the number
  that \<open>date.toordinal()\<close> returns: day 1 is 0001-01-01 and the last date,
  9999-12-31, is day 3652059. Comparing two dates is comparing their ordinals, and
  adding a \<open>timedelta\<close> of whole days adds to the ordinal, with
  \<open>OverflowError\<close> when the result is not a date.
\<close>

type_synonym date = nat

definition MAXORDINAL :: nat where
  "MAXORDINAL = 3652059"

definition valid_date :: "date \<Rightarrow> bool" where
  "valid_date d \<longleftrightarrow> 1 \<le> d \<and> d \<le> MAXORDINAL"

definition date_add_days :: "date \<Rightarrow> nat \<Rightarrow> error + date" where
  "date_add_days d n = (if 0 < d + n \<and> d + n \<le> MAXORDINAL then Inr (d + n) else Inl OverflowError)"

text \<open>
  The calendar of the \<open>datetime\<close> module, needed for \<open>strftime\<close> and for the
  constructor \<open>date(year, month, day)\<close>. The tables are indexed by the month, from 1.
\<close>

definition is_leap :: "nat \<Rightarrow> bool" where
  "is_leap year \<longleftrightarrow> year mod 4 = 0 \<and> (year mod 100 \<noteq> 0 \<or> year mod 400 = 0)"

definition DAYS_IN_MONTH :: "nat list" where
  "DAYS_IN_MONTH = [0, 31, 28, 31, 30, 31, 30, 31, 31, 30, 31, 30, 31]"

definition DAYS_BEFORE_MONTH :: "nat list" where
  "DAYS_BEFORE_MONTH = [0, 0, 31, 59, 90, 120, 151, 181, 212, 243, 273, 304, 334]"

definition days_before_year :: "nat \<Rightarrow> nat" where
  "days_before_year year = (let y = year - 1 in y * 365 + y div 4 - y div 100 + y div 400)"

definition days_in_month :: "nat \<Rightarrow> nat \<Rightarrow> nat" where
  "days_in_month year month =
     (if month = 2 \<and> is_leap year then 29 else DAYS_IN_MONTH ! month)"

definition days_before_month :: "nat \<Rightarrow> nat \<Rightarrow> nat" where
  "days_before_month year month =
     DAYS_BEFORE_MONTH ! month + (if month > 2 \<and> is_leap year then 1 else 0)"

definition ymd2ord :: "nat \<Rightarrow> nat \<Rightarrow> nat \<Rightarrow> nat" where
  "ymd2ord year month day = days_before_year year + days_before_month year month + day"

text \<open>\<open>date(year, month, day)\<close>, which checks its fields.\<close>

definition py_date :: "nat \<Rightarrow> nat \<Rightarrow> nat \<Rightarrow> error + date" where
  "py_date year month day =
     (if 1 \<le> year \<and> year \<le> 9999 \<and> 1 \<le> month \<and> month \<le> 12
         \<and> 1 \<le> day \<and> day \<le> days_in_month year month
      then Inr (ymd2ord year month day) else Inl ValueError)"

text \<open>From an ordinal back to year, month and day, by the 400, 100, 4 and 1 year cycles.\<close>

definition ord2ymd :: "nat \<Rightarrow> nat \<times> nat \<times> nat" where
  "ord2ymd ordinal =
     (let n = ordinal - 1;
          n400 = n div 146097; r400 = n mod 146097;
          n100 = r400 div 36524; r100 = r400 mod 36524;
          n4 = r100 div 1461; r4 = r100 mod 1461;
          n1 = r4 div 365; r1 = r4 mod 365;
          year = n400 * 400 + 1 + n100 * 100 + n4 * 4 + n1
      in if n1 = 4 \<or> n100 = 4 then (year - 1, 12, 31)
         else
           let leapyear = (n1 = 3 \<and> (n4 \<noteq> 24 \<or> n100 = 3));
               month = (r1 + 50) div 32;
               preceding = DAYS_BEFORE_MONTH ! month + (if month > 2 \<and> leapyear then 1 else 0)
           in if preceding > r1
              then (year, month - 1,
                    r1 - (preceding - (DAYS_IN_MONTH ! (month - 1)
                            + (if month - 1 = 2 \<and> leapyear then 1 else 0))) + 1)
              else (year, month, r1 - preceding + 1))"

definition digit :: "nat \<Rightarrow> char" where
  "digit n = ''0123456789'' ! (n mod 10)"

definition pad2 :: "nat \<Rightarrow> string" where
  "pad2 n = [digit (n div 10), digit n]"

definition pad4 :: "nat \<Rightarrow> string" where
  "pad4 n = [digit (n div 1000), digit (n div 100), digit (n div 10), digit n]"

text \<open>
  \<open>d.strftime("%Y-%m-%d")\<close> and \<open>d.strftime("%Y%m%d")\<close>: the year with century
  as four digits, the month and the day as two. (For a year before 1000 some C
  libraries leave out the leading zeros of the year; no statement below depends on
  the digits of such a year.)
\<close>

definition strftime_Y_m_d :: "date \<Rightarrow> string" where
  "strftime_Y_m_d d = (case ord2ymd d of (y, m, dd) \<Rightarrow> pad4 y @ ''-'' @ pad2 m @ ''-'' @ pad2 dd)"

definition strftime_Ymd :: "date \<Rightarrow> string" where
  "strftime_Ymd d = (case ord2ymd d of (y, m, dd) \<Rightarrow> pad4 y @ pad2 m @ pad2 dd)"

section \<open>The outside world\<close>

text \<open>
  What the code cannot decide is a parameter: the answer of the Reporting API to a
  request body (a response, or the exception that \<open>execute()\<close> raises), and what
  goes wrong when a file is written: \<open>open\<close> fails, the write of row number \<open>k\<close>
  (counted from 0) fails after \<open>k\<close> rows were written, or \<open>close\<close> fails. The
  logger is taken to record its calls and never to raise.
\<close>

datatype io_fault = NoFault | OpenFails | WriteFails nat | CloseFails

record world =
  api :: "json \<Rightarrow> error + json"
  faults :: "string \<Rightarrow> io_fault"

section \<open>get\_report\<close>

text \<open>
  Lines 79 to 81 and 86 to 99: the \<open>body\<close> of the request, made of the date as
  text and of one entry for each dimension and each metric that the caller gave.
\<close>

definition get_report_body :: "string \<Rightarrow> date \<Rightarrow> json list \<Rightarrow> json list \<Rightarrow> string \<Rightarrow> json" where
  "get_report_body view_id report_date dimensions metrics sampling =
     (let report_date' = strftime_Y_m_d report_date;
          dimensions' = map (\<lambda>dimension. JDict [(''name'', dimension)]) dimensions;
          metrics' = map (\<lambda>metric. JDict [(''expression'', metric)]) metrics
      in JDict [(''reportRequests'', JList [
           JDict [(''viewId'', JStr view_id),
                  (''dateRanges'', JList [
                     JDict [(''startDate'', JStr report_date'), (''endDate'', JStr report_date')]]),
                  (''metrics'', JList metrics'),
                  (''dimensions'', JList dimensions'),
                  (''samplingLevel'', JStr sampling),
                  (''pageSize'', JNum 100000)]])])"

text \<open>Lines 79 to 102: the call of the logger, then the one call of the API.\<close>

definition get_report ::
  "world \<Rightarrow> string \<Rightarrow> date \<Rightarrow> json list \<Rightarrow> json list \<Rightarrow> string \<Rightarrow> event list \<times> (error + json)" where
  "get_report w view_id report_date dimensions metrics sampling =
     (let body = get_report_body view_id report_date dimensions metrics sampling
      in ([Log INFO (''[GAUtils.get_report] getting report for '' @ strftime_Y_m_d report_date),
           ApiCall body],
          api w body))"

section \<open>list\_to\_csv\_file\<close>

text \<open>
  Python's \<open>==\<close> on these values, as line 168 uses it on two rows: a boolean is
  the number 0 or 1, two lists are equal when they have the same length and equal
  elements, two dictionaries when they have the same keys with equal values, and
  values of different kinds are different.
\<close>

fun num_value :: "json \<Rightarrow> int option" where
  "num_value (JBool b) = Some (if b then 1 else 0)"
| "num_value (JNum n) = Some n"
| "num_value _ = None"

function py_eq :: "json \<Rightarrow> json \<Rightarrow> bool" where
  "py_eq JNull y = (y = JNull)"
| "py_eq (JBool b) y = (num_value y = Some (if b then 1 else 0))"
| "py_eq (JNum n) y = (num_value y = Some n)"
| "py_eq (JStr s) y = (y = JStr s)"
| "py_eq (JList xs) y = (case y of JList ys \<Rightarrow> list_all2 py_eq xs ys | _ \<Rightarrow> False)"
| "py_eq (JDict a) y =
     (case y of
        JDict b \<Rightarrow>
          set (map fst a) = set (map fst b)
          \<and> list_all (\<lambda>k. case map_of a k of
                            Some v \<Rightarrow> (case map_of b k of Some v' \<Rightarrow> py_eq v v' | None \<Rightarrow> False)
                          | None \<Rightarrow> False) (map fst a)
      | _ \<Rightarrow> False)"
  by pat_completeness auto
termination
  apply (relation "measure (\<lambda>(x, y). size x)")
    apply simp
  subgoal for xs y ys z
    by (simp add: less_Suc_eq_le size_list_estimation')
  subgoal for a y b k v v'
    using size_list_estimation' [of "(k, v)" a "size v" "size_prod (\<lambda>x. 0) size"]
    by (auto dest!: map_of_SomeD)
  done

text \<open>
  Lines 167 to 172: the rows handed to \<open>writerow\<close> when an extraction date is
  given. \<open>content[0]\<close> is read inside the loop only, hence on a table with a row.
\<close>

definition dated_lines :: "json list list \<Rightarrow> string \<Rightarrow> json list list" where
  "dated_lines content extraction_date =
     (case content of
        [] \<Rightarrow> []
      | first # _ \<Rightarrow>
          map (\<lambda>line. if list_all2 py_eq line first then JStr ''Extraction Date'' # line
                      else JStr extraction_date # line) content)"

text \<open>
  Lines 160 to 173, the body of the \<open>try\<close>: the events and whether an exception
  left it. \<open>csv.writer\<close> wants a delimiter of one character and raises
  \<open>TypeError\<close> otherwise, after \<open>open\<close> has created the file.
\<close>

definition csv_try ::
  "world \<Rightarrow> string \<Rightarrow> json list list \<Rightarrow> string \<Rightarrow> string option \<Rightarrow> event list \<times> (error + unit)" where
  "csv_try w filename content delimiter extraction_date =
     (let saving = Log INFO (''[GAUtils.download] saving report to '' @ filename);
          lines = (case extraction_date of
                     None \<Rightarrow> content
                   | Some d \<Rightarrow> dated_lines content d)
      in case faults w filename of
           OpenFails \<Rightarrow> ([saving], Inl OSError)
         | fault \<Rightarrow>
             if length delimiter \<noteq> 1
             then ([saving, FileWritten filename delimiter []], Inl TypeError)
             else (case fault of
                     WriteFails k \<Rightarrow>
                       if k < length lines
                       then ([saving, FileWritten filename delimiter (take k lines)], Inl OSError)
                       else ([saving, FileWritten filename delimiter lines], Inr ())
                   | CloseFails \<Rightarrow> ([saving, FileWritten filename delimiter lines], Inl OSError)
                   | _ \<Rightarrow> ([saving, FileWritten filename delimiter lines], Inr ())))"

text \<open>Lines 159 to 176: the \<open>try\<close>, its handler and the \<open>return\<close>.\<close>

definition list_to_csv_file ::
  "world \<Rightarrow> string \<Rightarrow> json list list \<Rightarrow> string \<Rightarrow> string option \<Rightarrow> event list \<times> string" where
  "list_to_csv_file w filename content delimiter extraction_date =
     (case csv_try w filename content delimiter extraction_date of
        (evs, Inl e) \<Rightarrow>
          (evs @ [LogError ''[GAUtil.list_to_csv] Error creating temp csv file'' e], filename)
      | (evs, Inr _) \<Rightarrow> (evs, filename))"

section \<open>get\_batch\_report\<close>

text \<open>
  Lines 204 to 220, one pass through the body of the \<open>while\<close> loop: the events,
  and the next value of \<open>current_date\<close> unless an exception leaves the loop. The
  writer is called with its default delimiter and no extraction date.
\<close>

definition batch_iteration ::
  "world \<Rightarrow> string \<Rightarrow> string \<Rightarrow> json list \<Rightarrow> json list \<Rightarrow> string \<Rightarrow> date
     \<Rightarrow> event list \<times> (error + date)" where
  "batch_iteration w view_id report_name dimensions metrics sampling current_date =
     (let formated_date = strftime_Ymd current_date;
          downloading =
            Log DEBUG (''Downloading report for view '' @ view_id @ '' at '' @ formated_date)
      in case get_report w view_id current_date dimensions metrics sampling of
           (fetched, Inl e) \<Rightarrow> (downloading # fetched, Inl e)
         | (fetched, Inr report) \<Rightarrow>
             (case parse_report report view_id of
                (parsed, Inl e) \<Rightarrow> (downloading # fetched @ parsed, Inl e)
              | (parsed, Inr content) \<Rightarrow>
                  (case list_to_csv_file w
                          (''./files/'' @ report_name @ ''_'' @ formated_date @ ''.csv'')
                          content '','' None of
                     (saved, file) \<Rightarrow>
                       (downloading # fetched @ parsed @ saved,
                        date_add_days current_date 1))))"

text \<open>Lines 202 to 220: the loop, from \<open>current_date\<close> on.\<close>

function batch_loop ::
  "world \<Rightarrow> string \<Rightarrow> string \<Rightarrow> date \<Rightarrow> json list \<Rightarrow> json list \<Rightarrow> string \<Rightarrow> date
     \<Rightarrow> event list \<times> (error + unit)" where
  "batch_loop w view_id report_name end_date dimensions metrics sampling current_date =
     (if end_date \<ge> current_date
      then (case batch_iteration w view_id report_name dimensions metrics sampling current_date of
              (evs, Inl e) \<Rightarrow> (evs, Inl e)
            | (evs, Inr next_date) \<Rightarrow>
                (case batch_loop w view_id report_name end_date dimensions metrics sampling
                        next_date of
                   (rest, r) \<Rightarrow> (evs @ rest, r)))
      else ([], Inr ()))"
  by pat_completeness auto
termination
  apply (relation "measure (\<lambda>(w, view_id, report_name, end_date, dimensions, metrics, sampling,
                             current_date). Suc end_date - current_date)")
   apply simp
  apply (auto simp: batch_iteration_def Let_def date_add_days_def
              split: prod.splits sum.splits if_splits)
  done

definition get_batch_report ::
  "world \<Rightarrow> string \<Rightarrow> json \<Rightarrow> string \<Rightarrow> date \<Rightarrow> date \<Rightarrow> json list \<Rightarrow> json list \<Rightarrow> string
     \<Rightarrow> event list \<times> (error + unit)" where
  "get_batch_report w view_id schema report_name start_date end_date dimensions metrics sampling =
     batch_loop w view_id report_name end_date dimensions metrics sampling start_date"

section \<open>Notions used in the statements\<close>

text \<open>A name contains \<open>ga:\<close> somewhere.\<close>

fun contains_ga :: "string \<Rightarrow> bool" where
  "contains_ga [] = False"
| "contains_ga (c # cs) = (take 3 (c # cs) = ''ga:'' \<or> contains_ga cs)"

text \<open>
  The response of the Reporting API to one report request carries its content at
  \<open>reports[0].columnHeader.dimensions\<close>,
  \<open>reports[0].columnHeader.metricHeader.metricHeaderEntries[].name\<close> and
  \<open>reports[0].data.rows[].{dimensions, metrics[0].values}\<close>; an absent key
  stands for an empty section where the code gives \<open>get\<close> a default.
  \<open>response_has response dims mets rows\<close> says that the first report of the
  response names the dimensions \<open>dims\<close> and the metrics \<open>mets\<close> and has the
  data rows \<open>rows\<close>, each a list of dimension values and the values of its first
  set of metric values.
\<close>

definition row_has :: "json \<Rightarrow> json list \<Rightarrow> json list \<Rightarrow> bool" where
  "row_has row ds vs \<longleftrightarrow>
     py_get row ''dimensions'' JNull = Inr (JList ds)
     \<and> and_then (and_then (py_get row ''metrics'' (JList [])) py_item0)
          (\<lambda>m. py_get m ''values'' JNull) = Inr (JList vs)"

definition response_has ::
  "json \<Rightarrow> string list \<Rightarrow> string list \<Rightarrow> (json list \<times> json list) list \<Rightarrow> bool" where
  "response_has response dims mets rows \<longleftrightarrow>
     (case first_report response of
        Inl _ \<Rightarrow> False
      | Inr report \<Rightarrow>
          and_then (py_get report ''columnHeader'' (JDict []))
            (\<lambda>h. py_get h ''dimensions'' (JList [])) = Inr (JList (map JStr dims))
          \<and> (case and_then (and_then (py_get report ''columnHeader'' (JDict []))
                       (\<lambda>h. py_get h ''metricHeader'' (JDict [])))
                    (\<lambda>m. py_get m ''metricHeaderEntries'' (JList [])) of
                Inr (JList entries) \<Rightarrow>
                  list_all2 (\<lambda>e n. py_get e ''name'' JNull = Inr (JStr n)) entries mets
              | _ \<Rightarrow> False)
          \<and> (case and_then (py_get report ''data'' (JDict []))
                    (\<lambda>d. py_get d ''rows'' (JList [])) of
                Inr (JList rs) \<Rightarrow> list_all2 (\<lambda>r (ds, vs). row_has r ds vs) rs rows
              | _ \<Rightarrow> False))"

text \<open>\<open>body["reportRequests"][0][key]\<close>, to read a request body.\<close>

definition request_field :: "json \<Rightarrow> string \<Rightarrow> error + json" where
  "request_field body key =
     and_then (and_then (py_get body ''reportRequests'' JNull) py_item0)
       (\<lambda>request. py_get request key JNull)"

text \<open>The network calls and the files of a trace, without the log.\<close>

fun is_io :: "event \<Rightarrow> bool" where
  "is_io (ApiCall body) = True"
| "is_io (FileWritten filename delimiter lines) = True"
| "is_io _ = False"

definition io_events :: "event list \<Rightarrow> event list" where
  "io_events evs = filter is_io evs"

text \<open>The names of the files of a trace, in the order in which they were opened.\<close>

fun files_of :: "event list \<Rightarrow> string list" where
  "files_of [] = []"
| "files_of (FileWritten filename delimiter lines # evs) = filename # files_of evs"
| "files_of (ev # evs) = files_of evs"

subsection \<open>Example data\<close>

text \<open>
  A response to the query for the dimension \<open>ga:country\<close> and the metric
  \<open>ga:sessions\<close> with the one data row \<open>("US", "42")\<close>; below, worlds in
  which the API gives this response to every request.
\<close>

definition example_response :: json where
  "example_response =
     JDict [(''reports'', JList [JDict [
       (''columnHeader'', JDict [
          (''dimensions'', JList [JStr ''ga:country'']),
          (''metricHeader'', JDict [(''metricHeaderEntries'', JList [
             JDict [(''name'', JStr ''ga:sessions''), (''type'', JStr ''INTEGER'')]])])]),
       (''data'', JDict [
          (''rows'', JList [JDict [
             (''dimensions'', JList [JStr ''US'']),
             (''metrics'', JList [JDict [(''values'', JList [JStr ''42''])]])]]),
          (''rowCount'', JNum 1)])]])]"

text \<open>
  The response to a query for the metric \<open>ga:sessions\<close> and no dimension, in
  which neither the header nor the data row has the key \<open>dimensions\<close>, and the
  same response with the empty list of dimension values written out in the row.
\<close>

definition metrics_only_response :: json where
  "metrics_only_response =
     JDict [(''reports'', JList [JDict [
       (''columnHeader'', JDict [
          (''metricHeader'', JDict [(''metricHeaderEntries'', JList [
             JDict [(''name'', JStr ''ga:sessions''), (''type'', JStr ''INTEGER'')]])])]),
       (''data'', JDict [
          (''rows'', JList [JDict [
             (''metrics'', JList [JDict [(''values'', JList [JStr ''42''])]])]]),
          (''rowCount'', JNum 1)])]])]"

definition metrics_only_explicit :: json where
  "metrics_only_explicit =
     JDict [(''reports'', JList [JDict [
       (''columnHeader'', JDict [
          (''metricHeader'', JDict [(''metricHeaderEntries'', JList [
             JDict [(''name'', JStr ''ga:sessions''), (''type'', JStr ''INTEGER'')]])])]),
       (''data'', JDict [
          (''rows'', JList [JDict [
             (''dimensions'', JList []),
             (''metrics'', JList [JDict [(''values'', JList [JStr ''42''])]])]]),
          (''rowCount'', JNum 1)])]])]"

definition example_world :: world where
  "example_world = \<lparr>api = (\<lambda>body. Inr example_response), faults = (\<lambda>filename. NoFault)\<rparr>"

definition readonly_world :: world where
  "readonly_world = \<lparr>api = (\<lambda>body. Inr example_response), faults = (\<lambda>filename. OpenFails)\<rparr>"

section \<open>Auxiliary facts\<close>

declare batch_loop.simps [simp del]

lemma and_then_Inr [simp]: "and_then (Inr x) f = f x"
  by (simp add: and_then_def)

lemma and_then_Inl [simp]: "and_then (Inl e) f = Inl e"
  by (simp add: and_then_def)

lemma and_then_eq_Inr: "and_then m f = Inr y \<longleftrightarrow> (\<exists>x. m = Inr x \<and> f x = Inr y)"
  by (cases m) simp_all

lemma strip_dimension_names:
  "map_raising strip_dimension (map JStr xs) = Inr (map JStr (map replace_ga xs))"
  by (induction xs) (simp_all add: strip_dimension_def)

lemma strip_metric_names:
  "list_all2 (\<lambda>e n. py_get e ''name'' JNull = Inr (JStr n)) entries mets
     \<Longrightarrow> map_raising strip_metric entries = Inr (map JStr (map replace_ga mets))"
  by (induction entries mets rule: list_all2_induct) (simp_all add: strip_metric_def)

lemma parse_row_has: "row_has row ds vs \<Longrightarrow> parse_row view_id row = Inr (ds @ vs @ [JStr view_id])"
  by (auto simp: row_has_def parse_row_def and_then_eq_Inr)

lemma parse_rows_have:
  "list_all2 (\<lambda>r (ds, vs). row_has r ds vs) rs rows
     \<Longrightarrow> map_raising (parse_row view_id) rs = Inr (map (\<lambda>(ds, vs). ds @ vs @ [JStr view_id]) rows)"
  by (induction rs rows rule: list_all2_induct) (auto simp: parse_row_has)

lemma parse_first_has:
  assumes "first_report response = Inr report" and "response_has response dims mets rows"
  shows "parse_first report view_id =
           Inr (map JStr (map replace_ga dims @ map replace_ga mets @ [''view_id''])
                # map (\<lambda>(ds, vs). ds @ vs @ [JStr view_id]) rows)"
proof -
  from assms obtain h where h: "py_get report ''columnHeader'' (JDict []) = Inr h"
      and d: "py_get h ''dimensions'' (JList []) = Inr (JList (map JStr dims))"
    by (auto simp: response_has_def and_then_eq_Inr)
  from assms h obtain m entries where m: "py_get h ''metricHeader'' (JDict []) = Inr m"
      and e: "py_get m ''metricHeaderEntries'' (JList []) = Inr (JList entries)"
      and names: "list_all2 (\<lambda>e n. py_get e ''name'' JNull = Inr (JStr n)) entries mets"
    by (auto simp: response_has_def and_then_eq_Inr split: sum.splits json.splits)
  from assms obtain dt rs where dt: "py_get report ''data'' (JDict []) = Inr dt"
      and r: "py_get dt ''rows'' (JList []) = Inr (JList rs)"
      and rs: "list_all2 (\<lambda>r (ds, vs). row_has r ds vs) rs rows"
    by (auto simp: response_has_def and_then_eq_Inr split: sum.splits json.splits)
  show ?thesis
    by (simp add: parse_first_def h d m e dt r strip_dimension_names
                  strip_metric_names [OF names] parse_rows_have [OF rs])
qed

lemma parse_report_has:
  assumes "response_has response dims mets rows"
  shows "parse_report response view_id =
           ([Log INFO ''[GAUtils.get_report] parsing report''],
            Inr (map JStr (map replace_ga dims @ map replace_ga mets @ [''view_id''])
                 # map (\<lambda>(ds, vs). ds @ vs @ [JStr view_id]) rows))"
proof -
  from assms obtain report where r: "first_report response = Inr report"
    by (auto simp: response_has_def split: sum.splits)
  show ?thesis
    by (simp add: parse_report_def r parse_first_has [OF r assms])
qed

subsection \<open>Facts about the removal of \<open>ga:\<close>\<close>

lemma replace_ga_noop: "\<not> contains_ga s \<Longrightarrow> replace_ga s = s"
  by (induction s rule: replace_ga.induct) auto

lemma take3_colon: "take 3 s = ''ga:'' \<Longrightarrow> CHR '':'' \<in> set s"
proof -
  assume h: "take 3 s = ''ga:''"
  have "CHR '':'' \<in> set (take 3 s)" by (simp add: h)
  then show ?thesis by (rule in_set_takeD)
qed

lemma contains_ga_colon: "CHR '':'' \<notin> set s \<Longrightarrow> \<not> contains_ga s"
proof (induction s)
  case Nil
  show ?case by simp
next
  case (Cons c cs)
  have "take 3 (c # cs) \<noteq> ''ga:''" using Cons.prems take3_colon by blast
  moreover have "\<not> contains_ga cs" using Cons by simp
  ultimately show ?case by simp
qed

lemma contains_ga_append: "contains_ga (pre @ ''ga:'' @ post)"
  by (induction pre) simp_all

lemma contains_ga_iff: "contains_ga s \<longleftrightarrow> (\<exists>pre post. s = pre @ ''ga:'' @ post)"
proof
  assume "contains_ga s"
  then show "\<exists>pre post. s = pre @ ''ga:'' @ post"
  proof (induction s)
    case Nil
    then show ?case by simp
  next
    case (Cons c cs)
    show ?case
    proof (cases "take 3 (c # cs) = ''ga:''")
      case True
      have "c # cs = [] @ take 3 (c # cs) @ drop 3 (c # cs)" by simp
      then have "c # cs = [] @ ''ga:'' @ drop 3 (c # cs)" unfolding True .
      then show ?thesis by blast
    next
      case False
      have "contains_ga cs" using False Cons.prems contains_ga.simps(2) by blast
      then obtain pre post where "cs = pre @ ''ga:'' @ post" using Cons.IH by blast
      then have "c # cs = (c # pre) @ ''ga:'' @ post" by simp
      then show ?thesis by blast
    qed
  qed
next
  assume "\<exists>pre post. s = pre @ ''ga:'' @ post"
  then show "contains_ga s" using contains_ga_append by auto
qed

subsection \<open>The example data\<close>

lemma example_response_has:
  "response_has example_response [''ga:country''] [''ga:sessions''] [([JStr ''US''], [JStr ''42''])]"
  by (simp add: response_has_def example_response_def first_report_def row_has_def)

lemma example_table:
  "parse_report example_response ''123'' =
     ([Log INFO ''[GAUtils.get_report] parsing report''],
      Inr [[JStr ''country'', JStr ''sessions'', JStr ''view_id''],
           [JStr ''US'', JStr ''42'', JStr ''123'']])"
  using parse_report_has [OF example_response_has, of "''123''"] by simp

lemma january_2024:
  "strftime_Ymd 738886 = ''20240101''" "strftime_Ymd 738887 = ''20240102''"
  "strftime_Ymd 738888 = ''20240103''"
  "strftime_Y_m_d 738886 = ''2024-01-01''" "strftime_Y_m_d 738887 = ''2024-01-02''"
  "strftime_Y_m_d 738888 = ''2024-01-03''"
  by (simp_all add: strftime_Ymd_def strftime_Y_m_d_def ord2ymd_def pad2_def pad4_def digit_def
        DAYS_BEFORE_MONTH_def DAYS_IN_MONTH_def)

lemma three_days: "[738886..<Suc 738888] = [738886, 738887, 738888]"
  by (simp add: upt_rec)

lemma dated_lines_bool_number:
  "dated_lines [[JNum 1, JStr ''a''], [JBool True, JStr ''a''], [JNum 2, JStr ''a'']] ''2024-01-01'' =
     [[JStr ''Extraction Date'', JNum 1, JStr ''a''],
      [JStr ''Extraction Date'', JBool True, JStr ''a''],
      [JStr ''2024-01-01'', JNum 2, JStr ''a'']]"
  by (simp add: dated_lines_def)

subsection \<open>Facts about the traces\<close>

lemma io_events_Nil [simp]: "io_events [] = []"
  by (simp add: io_events_def)

lemma io_events_append [simp]: "io_events (xs @ ys) = io_events xs @ io_events ys"
  by (simp add: io_events_def)

lemma files_of_append [simp]: "files_of (xs @ ys) = files_of xs @ files_of ys"
  by (induction xs rule: files_of.induct) simp_all

lemma io_events_parse_report [simp]: "io_events (fst (parse_report response view_id)) = []"
  by (simp add: parse_report_def io_events_def split: sum.splits)

lemma files_of_io_events: "files_of (io_events evs) = files_of evs"
  by (induction evs rule: files_of.induct) (simp_all add: io_events_def)

lemma files_of_days:
  "files_of (concat (map (\<lambda>d. [ApiCall (a d), FileWritten (f d) dl (t d)]) ds)) = map f ds"
  by (induction ds) simp_all

lemma no_file_get_report:
  "FileWritten f dl lines \<notin> set (fst (get_report w view_id d dimensions metrics sampling))"
  by (simp add: get_report_def Let_def)

lemma no_file_parse_report:
  "FileWritten f dl lines \<notin> set (fst (parse_report response view_id))"
  by (simp add: parse_report_def split: sum.splits)

lemma file_of_list_to_csv_file:
  "FileWritten f' dl' lines \<in> set (fst (list_to_csv_file w f content dl None))
     \<Longrightarrow> f' = f \<and> dl' = dl \<and> (\<exists>k. lines = take k content)"
proof -
  assume a: "FileWritten f' dl' lines \<in> set (fst (list_to_csv_file w f content dl None))"
  have full: "content = take (length content) content" by simp
  have none: "[] = take 0 content" by simp
  from a have "f' = f \<and> dl' = dl \<and> (lines = content \<or> lines = [] \<or> (\<exists>k. lines = take k content))"
    by (auto simp: list_to_csv_file_def csv_try_def Let_def
             split: prod.splits sum.splits io_fault.splits if_splits)
  then show ?thesis using full none by metis
qed

subsection \<open>Facts about the loop\<close>

lemma batch_iteration_next:
  "batch_iteration w view_id report_name dimensions metrics sampling d = (evs, Inr d')
     \<Longrightarrow> d' = d + 1"
  by (auto simp: batch_iteration_def Let_def date_add_days_def
           split: prod.splits sum.splits if_splits)

lemma batch_iteration_ok:
  assumes "api w (get_report_body view_id d dimensions metrics sampling) = Inr response"
      and "snd (parse_report response view_id) = Inr content"
      and "faults w (''./files/'' @ report_name @ ''_'' @ strftime_Ymd d @ ''.csv'') = NoFault"
  shows "io_events (fst (batch_iteration w view_id report_name dimensions metrics sampling d)) =
           [ApiCall (get_report_body view_id d dimensions metrics sampling),
            FileWritten (''./files/'' @ report_name @ ''_'' @ strftime_Ymd d @ ''.csv'') '','' content]"
    and "snd (batch_iteration w view_id report_name dimensions metrics sampling d) = date_add_days d 1"
proof -
  obtain parsed where p: "parse_report response view_id = (parsed, Inr content)"
    using assms(2) by (cases "parse_report response view_id") simp
  have "io_events parsed = []"
    using io_events_parse_report [of response view_id] by (simp add: p)
  then show "io_events (fst (batch_iteration w view_id report_name dimensions metrics sampling d)) =
           [ApiCall (get_report_body view_id d dimensions metrics sampling),
            FileWritten (''./files/'' @ report_name @ ''_'' @ strftime_Ymd d @ ''.csv'') '','' content]"
    using assms(1,3)
    by (simp add: batch_iteration_def Let_def get_report_def p list_to_csv_file_def csv_try_def io_events_def)
  show "snd (batch_iteration w view_id report_name dimensions metrics sampling d) = date_add_days d 1"
    using assms(1)
    by (simp add: batch_iteration_def Let_def get_report_def p split: prod.splits)
qed

lemma batch_loop_days:
  assumes "end_date \<le> MAXORDINAL"
      and "\<forall>d. current_date \<le> d \<and> d \<le> end_date \<longrightarrow>
             api w (get_report_body view_id d dimensions metrics sampling) = Inr (response d)
             \<and> snd (parse_report (response d) view_id) = Inr (table d)
             \<and> faults w (''./files/'' @ report_name @ ''_'' @ strftime_Ymd d @ ''.csv'') = NoFault"
  shows "io_events (fst (batch_loop w view_id report_name end_date dimensions metrics sampling current_date)) =
           concat (map (\<lambda>d. [ApiCall (get_report_body view_id d dimensions metrics sampling),
                 FileWritten (''./files/'' @ report_name @ ''_'' @ strftime_Ymd d @ ''.csv'') '','' (table d)])
              [current_date..<Suc end_date])
         \<and> (end_date < MAXORDINAL \<longrightarrow>
              snd (batch_loop w view_id report_name end_date dimensions metrics sampling current_date) = Inr ())"
  using assms
proof (induction w view_id report_name end_date dimensions metrics sampling current_date
       rule: batch_loop.induct)
  case (1 w view_id report_name end_date dimensions metrics sampling current_date)
  let ?it = "batch_iteration w view_id report_name dimensions metrics sampling current_date"
  let ?day = "\<lambda>d. [ApiCall (get_report_body view_id d dimensions metrics sampling),
                 FileWritten (''./files/'' @ report_name @ ''_'' @ strftime_Ymd d @ ''.csv'') '','' (table d)]"
  show ?case
  proof (cases "current_date \<le> end_date")
    case False
    then have "[current_date..<Suc end_date] = []" by simp
    with False show ?thesis
      by (simp add: batch_loop.simps [of w view_id report_name end_date dimensions metrics sampling current_date])
  next
    case True
    note unfold = batch_loop.simps [of w view_id report_name end_date dimensions metrics sampling current_date]
    have ok: "api w (get_report_body view_id current_date dimensions metrics sampling) = Inr (response current_date)"
         "snd (parse_report (response current_date) view_id) = Inr (table current_date)"
         "faults w (''./files/'' @ report_name @ ''_'' @ strftime_Ymd current_date @ ''.csv'') = NoFault"
      using "1.prems"(2) True by auto
    note it = batch_iteration_ok [OF ok]
    have upt: "[current_date..<Suc end_date] = current_date # [Suc current_date..<Suc end_date]"
      using True by (simp add: upt_conv_Cons)
    show ?thesis
    proof (cases "current_date < MAXORDINAL")
      case False
      with True "1.prems"(1) have eq: "current_date = end_date" "end_date = MAXORDINAL" by auto
      have "snd ?it = Inl OverflowError"
        using it(2) eq by (simp add: date_add_days_def)
      then obtain evs where evs: "?it = (evs, Inl OverflowError)" by (cases ?it) simp
      have "io_events evs = ?day current_date" using it(1) evs by simp
      then show ?thesis using evs eq unfold by simp
    next
      case lt: True
      have "snd ?it = Inr (Suc current_date)"
        using it(2) lt by (simp add: date_add_days_def)
      then obtain evs where evs: "?it = (evs, Inr (Suc current_date))" by (cases ?it) simp
      have first: "io_events evs = ?day current_date" using it(1) evs by simp
      have IH: "io_events (fst (batch_loop w view_id report_name end_date dimensions metrics sampling (Suc current_date))) =
                  concat (map ?day [Suc current_date..<Suc end_date])
                \<and> (end_date < MAXORDINAL \<longrightarrow>
                    snd (batch_loop w view_id report_name end_date dimensions metrics sampling (Suc current_date)) = Inr ())"
        using "1.IH" [OF True evs [symmetric] refl "1.prems"(1)] "1.prems"(2) by simp
      show ?thesis
        using True evs first IH upt unfold
        by (simp split: prod.splits)
    qed
  qed
qed

lemma file_of_batch_iteration:
  assumes "FileWritten f dl lines \<in> set (fst (batch_iteration w view_id report_name dimensions metrics sampling d))"
  shows "dl = '',''
         \<and> f = ''./files/'' @ report_name @ ''_'' @ strftime_Ymd d @ ''.csv''
         \<and> (\<exists>response content k.
               api w (get_report_body view_id d dimensions metrics sampling) = Inr response
               \<and> snd (parse_report response view_id) = Inr content
               \<and> lines = take k content)"
proof -
  let ?body = "get_report_body view_id d dimensions metrics sampling"
  have g: "snd (get_report w view_id d dimensions metrics sampling) = api w ?body"
    by (simp add: get_report_def Let_def)
  obtain fetched r where gr: "get_report w view_id d dimensions metrics sampling = (fetched, r)"
    by (cases "get_report w view_id d dimensions metrics sampling")
  have nf: "FileWritten f dl lines \<notin> set fetched"
    using no_file_get_report [of f dl lines w view_id d dimensions metrics sampling] gr by simp
  show ?thesis
  proof (cases r)
    case (Inl e)
    with assms gr nf show ?thesis by (simp add: batch_iteration_def Let_def)
  next
    case (Inr response)
    then have api: "api w ?body = Inr response" using g gr by simp
    obtain parsed p where pr: "parse_report response view_id = (parsed, p)"
      by (cases "parse_report response view_id")
    have np: "FileWritten f dl lines \<notin> set parsed"
      using no_file_parse_report [of f dl lines response view_id] pr by simp
    show ?thesis
    proof (cases p)
      case (Inl e)
      with assms gr nf Inr pr np show ?thesis by (simp add: batch_iteration_def Let_def)
    next
      case content: (Inr content)
      from assms gr nf Inr pr np content
      have "FileWritten f dl lines \<in> set (fst (list_to_csv_file w
               (''./files/'' @ report_name @ ''_'' @ strftime_Ymd d @ ''.csv'') content '','' None))"
        by (simp add: batch_iteration_def Let_def split: prod.splits)
      from file_of_list_to_csv_file [OF this] api pr content show ?thesis by auto
    qed
  qed
qed

lemma file_of_batch_loop:
  "FileWritten f dl lines \<in> set (fst (batch_loop w view_id report_name end_date dimensions metrics sampling current_date))
   \<Longrightarrow> dl = '',''
       \<and> (\<exists>d response content k. current_date \<le> d \<and> d \<le> end_date
             \<and> api w (get_report_body view_id d dimensions metrics sampling) = Inr response
             \<and> snd (parse_report response view_id) = Inr content
             \<and> f = ''./files/'' @ report_name @ ''_'' @ strftime_Ymd d @ ''.csv''
             \<and> lines = take k content)"
proof (induction w view_id report_name end_date dimensions metrics sampling current_date
       rule: batch_loop.induct)
  case (1 w view_id report_name end_date dimensions metrics sampling current_date)
  note unfold = batch_loop.simps [of w view_id report_name end_date dimensions metrics sampling current_date]
  let ?it = "batch_iteration w view_id report_name dimensions metrics sampling current_date"
  show ?case
  proof (cases "current_date \<le> end_date")
    case False
    with "1.prems" unfold show ?thesis by simp
  next
    case True
    obtain evs r where it: "?it = (evs, r)" by (cases ?it)
    show ?thesis
    proof (cases "FileWritten f dl lines \<in> set evs")
      case here: True
      then have "FileWritten f dl lines \<in> set (fst ?it)" by (simp add: it)
      from file_of_batch_iteration [OF this] True show ?thesis by blast
    next
      case nothere: False
      show ?thesis
      proof (cases r)
        case (Inl e)
        with "1.prems" unfold True it nothere show ?thesis by simp
      next
        case (Inr next_date)
        then have nd: "next_date = current_date + 1"
          using batch_iteration_next it by blast
        have "FileWritten f dl lines \<in> set (fst (batch_loop w view_id report_name end_date dimensions metrics sampling next_date))"
          using "1.prems" unfold True it nothere Inr by (simp split: prod.splits)
        from "1.IH" [OF True it [symmetric] Inr this] nd show ?thesis
          by (metis Suc_leD Suc_eq_plus1)
      qed
    qed
  qed
qed

section \<open>Properties of parse\_report\<close>

text \<open>
  Claim C1. The header names are read with the default \<open>[]\<close> for an absent key
  \<open>dimensions\<close> (line 119), the dimension values of a data row without a default
  (line 136). On the response to a query without dimensions, whose first report
  has one data row and no key \<open>dimensions\<close>, the header is built but the row is
  \<open>None + [...]\<close>, which raises \<open>TypeError\<close>: no table is returned, where the
  claim promises the header \<open>sessions, view_id\<close> and the row \<open>42\<close>, view id.
  This table is what the code returns when the row says \<open>"dimensions": []\<close>.
\<close>

theorem parse_report_without_dimensions:
  "first_report metrics_only_response =
     Inr (JDict [
       (''columnHeader'', JDict [
          (''metricHeader'', JDict [(''metricHeaderEntries'', JList [
             JDict [(''name'', JStr ''ga:sessions''), (''type'', JStr ''INTEGER'')]])])]),
       (''data'', JDict [
          (''rows'', JList [JDict [
             (''metrics'', JList [JDict [(''values'', JList [JStr ''42''])]])]]),
          (''rowCount'', JNum 1)])])
   \<and> parse_row ''123'' (JDict [(''metrics'', JList [JDict [(''values'', JList [JStr ''42''])]])]) =
       Inl TypeError
   \<and> parse_report metrics_only_response ''123'' =
       ([Log INFO ''[GAUtils.get_report] parsing report''], Inl TypeError)
   \<and> parse_report metrics_only_explicit ''123'' =
       ([Log INFO ''[GAUtils.get_report] parsing report''],
        Inr [[JStr ''sessions'', JStr ''view_id''], [JStr ''42'', JStr ''123'']])"
  by (simp add: metrics_only_response_def metrics_only_explicit_def parse_report_def
        first_report_def parse_first_def parse_row_def strip_metric_def)

text \<open>
  Claim C2. When the first report of the response names the dimensions \<open>dims\<close>
  and the metrics \<open>mets\<close> and has the data rows \<open>rows\<close>, and every data row
  has one value for each of these dimensions and one metric value for each of
  these metrics, \<open>parse_report\<close> returns a table; the header of the table has
  one field for each dimension, one for each metric and one more, there is one
  row of data for each data row of the response, and each has as many fields as
  the header.
\<close>

theorem parse_report_rectangular:
  assumes "response_has response dims mets rows"
      and "\<forall>(ds, vs) \<in> set rows. length ds = length dims \<and> length vs = length mets"
  shows "\<exists>header data.
           snd (parse_report response view_id) = Inr (header # data)
           \<and> length header = length dims + length mets + 1
           \<and> length data = length rows
           \<and> (\<forall>line \<in> set data. length line = length header)"
proof -
  let ?header = "map JStr (map replace_ga dims @ map replace_ga mets @ [''view_id''])"
  let ?data = "map (\<lambda>(ds, vs). ds @ vs @ [JStr view_id]) rows"
  have "snd (parse_report response view_id) = Inr (?header # ?data)"
    by (simp add: parse_report_has [OF assms(1)])
  moreover have "length ?header = length dims + length mets + 1" by simp
  moreover have "length ?data = length rows" by simp
  moreover have "\<forall>line \<in> set ?data. length line = length ?header"
    using assms(2) by auto
  ultimately show ?thesis by blast
qed

theorem parse_report_rectangular_witness:
  "response_has example_response [''ga:country''] [''ga:sessions''] [([JStr ''US''], [JStr ''42''])]
   \<and> length [JStr ''US''] = length [''ga:country'']
   \<and> length [JStr ''42''] = length [''ga:sessions'']
   \<and> (\<exists>header data.
           snd (parse_report example_response ''123'') = Inr (header # data)
           \<and> length header = 3 \<and> length data = 1
           \<and> (\<forall>line \<in> set data. length line = length header))"
  using parse_report_rectangular [of example_response "[''ga:country'']" "[''ga:sessions'']"
          "[([JStr ''US''], [JStr ''42''])]" "''123''"]
        example_response_has
  by (simp add: numeral_3_eq_3)

text \<open>
  Claim C8. On a response whose \<open>reports\<close> key is absent or holds the empty list,
  line 115 raises (Python's \<open>IndexError\<close>, which nothing catches) and no table is
  returned; on a response whose \<open>reports\<close> list has an entry, line 115 yields the
  first entry, the logger is called and the result is that of the rest of the
  method on this entry.
\<close>

theorem parse_report_no_reports:
  "((map_of kvs ''reports'' = None \<or> map_of kvs ''reports'' = Some (JList []))
      \<longrightarrow> parse_report (JDict kvs) view_id = ([], Inl IndexError))
   \<and> (map_of kvs ''reports'' = Some (JList (r # rs))
      \<longrightarrow> first_report (JDict kvs) = Inr r
          \<and> parse_report (JDict kvs) view_id =
              ([Log INFO ''[GAUtils.get_report] parsing report''], parse_first r view_id))"
  by (auto simp: parse_report_def first_report_def)

theorem parse_report_no_reports_witness:
  "map_of [] ''reports'' = (None :: json option)
   \<and> parse_report (JDict []) ''123'' = ([], Inl IndexError)
   \<and> map_of [(''reports'', JList [])] ''reports'' = Some (JList [])
   \<and> parse_report (JDict [(''reports'', JList [])]) ''123'' = ([], Inl IndexError)
   \<and> map_of [(''reports'', JList [JDict []])] ''reports'' = Some (JList [JDict []])
   \<and> first_report (JDict [(''reports'', JList [JDict []])]) = Inr (JDict [])
   \<and> parse_report (JDict [(''reports'', JList [JDict []])]) ''123'' =
        ([Log INFO ''[GAUtils.get_report] parsing report''], Inr [[JStr ''view_id'']])"
  using parse_report_no_reports [of "[]" "''123''"]
        parse_report_no_reports [of "[(''reports'', JList [])]" "''123''"]
        parse_report_no_reports [of "[(''reports'', JList [JDict []])]" "''123''" "JDict []" "[]"]
  by (simp add: parse_first_def)

text \<open>
  Claim C7, as amended. The comprehension over the header names removes \<open>ga:\<close>
  name by name and keeps the order. It leaves unchanged every name that does not
  contain \<open>ga:\<close> anywhere; applying it twice is the same as applying it once
  whenever no name still contains \<open>ga:\<close> after the first pass; and from
  \<open>ga:\<close> followed by a name without a colon it gives this name back.
\<close>

theorem header_stripping:
  "map_raising strip_dimension (map JStr xs) = Inr (map JStr (map replace_ga xs))
   \<and> ((\<forall>s\<in>set xs. \<not> contains_ga s) \<longrightarrow> map replace_ga xs = xs)
   \<and> ((\<forall>s\<in>set xs. \<not> contains_ga (replace_ga s)) \<longrightarrow>
        map replace_ga (map replace_ga xs) = map replace_ga xs)
   \<and> ((\<forall>s\<in>set xs. CHR '':'' \<notin> set s) \<longrightarrow> map replace_ga (map ((@) ''ga:'') xs) = xs)"
proof (intro conjI impI)
  show "map_raising strip_dimension (map JStr xs) = Inr (map JStr (map replace_ga xs))"
    by (rule strip_dimension_names)
next
  assume "\<forall>s\<in>set xs. \<not> contains_ga s"
  then show "map replace_ga xs = xs"
    by (simp add: replace_ga_noop map_idI)
next
  assume "\<forall>s\<in>set xs. \<not> contains_ga (replace_ga s)"
  then show "map replace_ga (map replace_ga xs) = map replace_ga xs"
    by (simp add: replace_ga_noop)
next
  assume h: "\<forall>s\<in>set xs. CHR '':'' \<notin> set s"
  have "\<And>s. s \<in> set xs \<Longrightarrow> replace_ga (''ga:'' @ s) = s"
    using h contains_ga_colon replace_ga_noop by simp
  then show "map replace_ga (map ((@) ''ga:'') xs) = xs"
    by (simp add: map_idI)
qed

theorem header_stripping_witness:
  "map_raising strip_dimension (map JStr [''ga:country'', ''sessions'']) = Inr (map JStr [''country'', ''sessions''])
   \<and> map replace_ga [''country'', ''sessions''] = [''country'', ''sessions'']
   \<and> map replace_ga (map replace_ga [''ga:country'', ''sessions'']) = map replace_ga [''ga:country'', ''sessions'']
   \<and> map replace_ga (map ((@) ''ga:'') [''country'', ''sessions'']) = [''country'', ''sessions'']"
  using header_stripping [of "[''ga:country'', ''sessions'']"] header_stripping [of "[''country'', ''sessions'']"]
  by simp

text \<open>
  As stated for every list of names the claim fails: \<open>replace\<close> removes
  \<open>ga:\<close> wherever it occurs, so a second pass can find an occurrence that the
  first pass has put together, and a name that does not begin with \<open>ga:\<close> can
  change.
\<close>

theorem header_stripping_counterexample:
  "map replace_ga (map replace_ga [''gga:a:'']) \<noteq> map replace_ga [''gga:a:'']
   \<and> take 3 ''xga:y'' \<noteq> ''ga:'' \<and> map replace_ga [''xga:y''] \<noteq> [''xga:y'']"
  by simp

section \<open>Properties of get\_report\<close>

text \<open>
  Claim C3, as amended. Every call of \<open>get_report\<close> logs the date, sends one
  request and returns what the API answers. The request has the one date range
  from the date to the same date, written as year-month-day, and the page size
  100000; its dimensions are the caller's values, each as the \<open>name\<close> of one
  entry and unchanged, and its metrics the caller's values, each as the
  \<open>expression\<close> of one entry and unchanged.
\<close>

theorem get_report_request:
  "fst (get_report w view_id report_date dimensions metrics sampling) =
     [Log INFO (''[GAUtils.get_report] getting report for '' @ strftime_Y_m_d report_date),
      ApiCall (get_report_body view_id report_date dimensions metrics sampling)]
   \<and> snd (get_report w view_id report_date dimensions metrics sampling) =
       api w (get_report_body view_id report_date dimensions metrics sampling)
   \<and> request_field (get_report_body view_id report_date dimensions metrics sampling)
         ''dateRanges'' =
       Inr (JList [JDict [(''startDate'', JStr (strftime_Y_m_d report_date)),
                          (''endDate'', JStr (strftime_Y_m_d report_date))]])
   \<and> request_field (get_report_body view_id report_date dimensions metrics sampling)
         ''pageSize'' = Inr (JNum 100000)
   \<and> request_field (get_report_body view_id report_date dimensions metrics sampling)
         ''dimensions'' = Inr (JList (map (\<lambda>dimension. JDict [(''name'', dimension)]) dimensions))
   \<and> request_field (get_report_body view_id report_date dimensions metrics sampling)
         ''metrics'' = Inr (JList (map (\<lambda>metric. JDict [(''expression'', metric)]) metrics))"
  by (simp add: get_report_def Let_def request_field_def get_report_body_def)

text \<open>
  No prefix is added: the names \<open>country\<close> and \<open>sessions\<close> are sent as they
  are, not as \<open>ga:country\<close> and \<open>ga:sessions\<close>.
\<close>

theorem get_report_request_counterexample:
  "fst (get_report example_world ''123'' 738886 [JStr ''country''] [JStr ''sessions''] ''LARGE'') =
     [Log INFO ''[GAUtils.get_report] getting report for 2024-01-01'',
      ApiCall (JDict [(''reportRequests'', JList [
        JDict [(''viewId'', JStr ''123''),
               (''dateRanges'', JList [
                  JDict [(''startDate'', JStr ''2024-01-01''), (''endDate'', JStr ''2024-01-01'')]]),
               (''metrics'', JList [JDict [(''expression'', JStr ''sessions'')]]),
               (''dimensions'', JList [JDict [(''name'', JStr ''country'')]]),
               (''samplingLevel'', JStr ''LARGE''),
               (''pageSize'', JNum 100000)]])])]
   \<and> request_field
         (get_report_body ''123'' 738886 [JStr ''country''] [JStr ''sessions''] ''LARGE'')
         ''dimensions'' = Inr (JList [JDict [(''name'', JStr ''country'')]])
   \<and> request_field
         (get_report_body ''123'' 738886 [JStr ''country''] [JStr ''sessions''] ''LARGE'')
         ''dimensions'' \<noteq> Inr (JList [JDict [(''name'', JStr ''ga:country'')]])
   \<and> request_field
         (get_report_body ''123'' 738886 [JStr ''country''] [JStr ''sessions''] ''LARGE'')
         ''metrics'' \<noteq> Inr (JList [JDict [(''expression'', JStr ''ga:sessions'')]])"
  by (simp add: get_report_def Let_def request_field_def get_report_body_def example_world_def
        january_2024)

section \<open>Properties of list\_to\_csv\_file\<close>

text \<open>
  Claim C4. The line that equals the first line of the table is taken for the
  header, wherever it stands: in a table whose second row repeats the header row,
  this row is written with \<open>Extraction Date\<close> in front and not with the date.
\<close>

theorem list_to_csv_file_header_equal_row:
  "list_to_csv_file example_world ''out.csv''
     [[JStr ''a'', JStr ''b''], [JStr ''a'', JStr ''b''], [JStr ''c'', JStr ''d'']] '','' (Some ''2024-01-01'') =
   ([Log INFO ''[GAUtils.download] saving report to out.csv'',
     FileWritten ''out.csv'' '',''
       [[JStr ''Extraction Date'', JStr ''a'', JStr ''b''],
        [JStr ''Extraction Date'', JStr ''a'', JStr ''b''],
        [JStr ''2024-01-01'', JStr ''c'', JStr ''d'']]], ''out.csv'')"
  by (simp add: list_to_csv_file_def csv_try_def Let_def dated_lines_def example_world_def)

text \<open>
  Claim C6. \<open>list_to_csv_file\<close> returns the file name it was given, whatever
  the table, the delimiter, the extraction date and the fate of the file; and when
  an exception leaves the body of the \<open>try\<close>, the last thing it does is to log
  this exception as an error.
\<close>

theorem list_to_csv_file_returns_filename:
  "snd (list_to_csv_file w filename content delimiter extraction_date) = filename
   \<and> (\<forall>e. snd (csv_try w filename content delimiter extraction_date) = Inl e \<longrightarrow>
          last (fst (list_to_csv_file w filename content delimiter extraction_date)) =
            LogError ''[GAUtil.list_to_csv] Error creating temp csv file'' e)"
  by (auto simp: list_to_csv_file_def split: prod.splits sum.splits)

theorem list_to_csv_file_returns_filename_witness:
  "snd (csv_try readonly_world ''out.csv'' [[JStr ''a'']] '','' None) = Inl OSError
   \<and> last (fst (list_to_csv_file readonly_world ''out.csv'' [[JStr ''a'']] '','' None)) =
        LogError ''[GAUtil.list_to_csv] Error creating temp csv file'' OSError
   \<and> snd (list_to_csv_file readonly_world ''out.csv'' [[JStr ''a'']] '','' None) = ''out.csv''
   \<and> list_to_csv_file example_world ''out.csv'' [[JStr ''a'']] '','' None =
        ([Log INFO ''[GAUtils.download] saving report to out.csv'',
          FileWritten ''out.csv'' '','' [[JStr ''a'']]], ''out.csv'')"
proof -
  have fails: "snd (csv_try readonly_world ''out.csv'' [[JStr ''a'']] '','' None) = Inl OSError"
    by (simp add: csv_try_def readonly_world_def)
  have ok: "list_to_csv_file example_world ''out.csv'' [[JStr ''a'']] '','' None =
        ([Log INFO ''[GAUtils.download] saving report to out.csv'',
          FileWritten ''out.csv'' '','' [[JStr ''a'']]], ''out.csv'')"
    by (simp add: list_to_csv_file_def csv_try_def example_world_def)
  from list_to_csv_file_returns_filename [of readonly_world "''out.csv''" "[[JStr ''a'']]" "'',''" None]
    fails ok
  show ?thesis by blast
qed

section \<open>Properties of get\_batch\_report\<close>

text \<open>
  Claim C5. For two dates with \<open>start_date \<le> end_date\<close>, when the API answers the
  request of every day of the range with a response that \<open>parse_report\<close>
  accepts and no file fails, the network calls and files of
  \<open>get_batch_report\<close> are, day by day from \<open>start_date\<close> to \<open>end_date\<close> in
  ascending order and without a gap, the request for the day and then the file
  \<open>./files/{report_name}_{YYYYMMDD}.csv\<close> with the table parsed from that day's
  response; there are \<open>end_date - start_date + 1\<close> files; and the loop ends
  normally unless \<open>end_date\<close> is the last date that exists.
\<close>

theorem get_batch_report_days:
  assumes "valid_date start_date" and "valid_date end_date" and "start_date \<le> end_date"
      and "\<forall>d \<in> {start_date..end_date}.
             api w (get_report_body view_id d dimensions metrics sampling) = Inr (response d)
             \<and> snd (parse_report (response d) view_id) = Inr (table d)
             \<and> faults w (''./files/'' @ report_name @ ''_'' @ strftime_Ymd d @ ''.csv'') = NoFault"
  shows "io_events (fst (get_batch_report w view_id schema report_name start_date end_date
                           dimensions metrics sampling)) =
           concat (map (\<lambda>d. [ApiCall (get_report_body view_id d dimensions metrics sampling),
                 FileWritten (''./files/'' @ report_name @ ''_'' @ strftime_Ymd d @ ''.csv'') '','' (table d)])
              [start_date..<Suc end_date])
         \<and> files_of (fst (get_batch_report w view_id schema report_name start_date end_date
                           dimensions metrics sampling)) =
             map (\<lambda>d. ''./files/'' @ report_name @ ''_'' @ strftime_Ymd d @ ''.csv'')
               [start_date..<Suc end_date]
         \<and> length (files_of (fst (get_batch_report w view_id schema report_name start_date end_date
                           dimensions metrics sampling))) = end_date - start_date + 1
         \<and> (end_date < MAXORDINAL \<longrightarrow>
              snd (get_batch_report w view_id schema report_name start_date end_date
                           dimensions metrics sampling) = Inr ())"
proof -
  let ?trace = "fst (batch_loop w view_id report_name end_date dimensions metrics sampling start_date)"
  let ?day = "\<lambda>d. [ApiCall (get_report_body view_id d dimensions metrics sampling),
                 FileWritten (''./files/'' @ report_name @ ''_'' @ strftime_Ymd d @ ''.csv'') '','' (table d)]"
  have le: "end_date \<le> MAXORDINAL" using assms(2) by (simp add: valid_date_def)
  have ok: "\<forall>d. start_date \<le> d \<and> d \<le> end_date \<longrightarrow>
             api w (get_report_body view_id d dimensions metrics sampling) = Inr (response d)
             \<and> snd (parse_report (response d) view_id) = Inr (table d)
             \<and> faults w (''./files/'' @ report_name @ ''_'' @ strftime_Ymd d @ ''.csv'') = NoFault"
    using assms(4) by simp
  note loop = batch_loop_days [OF le ok]
  have io: "io_events ?trace = concat (map ?day [start_date..<Suc end_date])"
    using loop by simp
  have "files_of ?trace = files_of (concat (map ?day [start_date..<Suc end_date]))"
    using io files_of_io_events [of ?trace] by simp
  also have "\<dots> = map (\<lambda>d. ''./files/'' @ report_name @ ''_'' @ strftime_Ymd d @ ''.csv'')
                     [start_date..<Suc end_date]"
    by (rule files_of_days)
  finally have files: "files_of ?trace =
      map (\<lambda>d. ''./files/'' @ report_name @ ''_'' @ strftime_Ymd d @ ''.csv'') [start_date..<Suc end_date]" .
  have len: "length (files_of ?trace) = end_date - start_date + 1"
    using files assms(3) by simp
  show ?thesis
    using io files len loop by (simp add: get_batch_report_def)
qed

theorem get_batch_report_days_witness:
  "py_date 2024 1 1 = Inr 738886 \<and> py_date 2024 1 3 = Inr 738888
   \<and> valid_date 738886 \<and> valid_date 738888 \<and> (738886 :: nat) \<le> 738888
   \<and> files_of (fst (get_batch_report example_world ''123'' JNull ''report'' 738886 738888
                      [JStr ''ga:country''] [JStr ''ga:sessions''] ''LARGE'')) =
       [''./files/report_20240101.csv'', ''./files/report_20240102.csv'',
        ''./files/report_20240103.csv'']
   \<and> length (files_of (fst (get_batch_report example_world ''123'' JNull ''report'' 738886 738888
                      [JStr ''ga:country''] [JStr ''ga:sessions''] ''LARGE''))) = 3
   \<and> snd (get_batch_report example_world ''123'' JNull ''report'' 738886 738888
                      [JStr ''ga:country''] [JStr ''ga:sessions''] ''LARGE'') = Inr ()"
proof -
  have dates: "py_date 2024 1 1 = Inr 738886" "py_date 2024 1 3 = Inr 738888"
    by (simp_all add: py_date_def ymd2ord_def days_before_year_def days_before_month_def
          days_in_month_def is_leap_def DAYS_BEFORE_MONTH_def DAYS_IN_MONTH_def)
  have v: "valid_date 738886" "valid_date 738888" "(738886 :: nat) \<le> 738888"
    by (simp_all add: valid_date_def MAXORDINAL_def)
  have ok: "\<forall>d \<in> {738886..738888}.
             api example_world (get_report_body ''123'' d [JStr ''ga:country''] [JStr ''ga:sessions''] ''LARGE'')
               = Inr ((\<lambda>d. example_response) d)
             \<and> snd (parse_report ((\<lambda>d. example_response) d) ''123'') =
                 Inr ((\<lambda>d. [[JStr ''country'', JStr ''sessions'', JStr ''view_id''],
                            [JStr ''US'', JStr ''42'', JStr ''123'']]) d)
             \<and> faults example_world (''./files/'' @ ''report'' @ ''_'' @ strftime_Ymd d @ ''.csv'') = NoFault"
    by (simp add: example_world_def example_table)
  show ?thesis
    using get_batch_report_days [OF v ok, of JNull] dates v
    by (simp add: three_days january_2024 MAXORDINAL_def)
qed

text \<open>
  Claim C9. The parameter \<open>schema\<close> is not used: two runs that differ in it only
  have the same trace (the same log, the same requests in the same order, the same
  files with the same rows) and the same outcome.
\<close>

theorem get_batch_report_schema_unused:
  "get_batch_report w view_id schema report_name start_date end_date dimensions metrics sampling =
   get_batch_report w view_id schema' report_name start_date end_date dimensions metrics sampling"
  by (simp add: get_batch_report_def)

text \<open>
  Claim C10. Every file that \<open>get_batch_report\<close> writes, whatever its arguments
  and whatever the API and the file system do, has the delimiter \<open>,\<close> and holds
  rows of the table parsed from the response for one day of the range, as they
  are (all of them, or the first of them when a write fails): no column is put
  in front.
\<close>

theorem get_batch_report_writer_defaults:
  "FileWritten filename delimiter lines \<in>
       set (fst (get_batch_report w view_id schema report_name start_date end_date
                   dimensions metrics sampling))
   \<Longrightarrow> delimiter = '',''
       \<and> (\<exists>d response content k. start_date \<le> d \<and> d \<le> end_date
             \<and> api w (get_report_body view_id d dimensions metrics sampling) = Inr response
             \<and> snd (parse_report response view_id) = Inr content
             \<and> filename = ''./files/'' @ report_name @ ''_'' @ strftime_Ymd d @ ''.csv''
             \<and> lines = take k content)"
  unfolding get_batch_report_def by (rule file_of_batch_loop)

theorem get_batch_report_writer_defaults_witness:
  "FileWritten ''./files/report_20240101.csv'' '',''
       [[JStr ''country'', JStr ''sessions'', JStr ''view_id''],
        [JStr ''US'', JStr ''42'', JStr ''123'']]
     \<in> set (fst (get_batch_report example_world ''123'' JNull ''report'' 738886 738886
                   [JStr ''ga:country''] [JStr ''ga:sessions''] ''LARGE''))
   \<and> (\<exists>d response content k. (738886 :: nat) \<le> d \<and> d \<le> 738886
         \<and> api example_world (get_report_body ''123'' d [JStr ''ga:country''] [JStr ''ga:sessions''] ''LARGE'')
             = Inr response
         \<and> snd (parse_report response ''123'') = Inr content
         \<and> ''./files/report_20240101.csv'' = ''./files/'' @ ''report'' @ ''_'' @ strftime_Ymd d @ ''.csv''
         \<and> [[JStr ''country'', JStr ''sessions'', JStr ''view_id''],
             [JStr ''US'', JStr ''42'', JStr ''123'']] = take k content)"
proof -
  have mem: "FileWritten ''./files/report_20240101.csv'' '',''
       [[JStr ''country'', JStr ''sessions'', JStr ''view_id''],
        [JStr ''US'', JStr ''42'', JStr ''123'']]
     \<in> set (fst (get_batch_report example_world ''123'' JNull ''report'' 738886 738886
                   [JStr ''ga:country''] [JStr ''ga:sessions''] ''LARGE''))"
    by (simp add: get_batch_report_def batch_loop.simps batch_iteration_def Let_def get_report_def
          example_world_def example_table list_to_csv_file_def csv_try_def date_add_days_def
          MAXORDINAL_def january_2024)
  from get_batch_report_writer_defaults [OF mem] mem show ?thesis by simp
qed

end
